theory Spec2Isabelle
  imports Complex_Main
begin

section \<open>JavaScript values, errors and the browser environment\<close>

text \<open>
  Values that travel as JSON (API bodies, \<^verbatim>\<open>localStorage\<close> items). JavaScript's
  \<^verbatim>\<open>undefined\<close> is \<open>None\<close> of an option type. An object is its list of own
  properties in insertion order; a property read is \<open>map_of\<close>.
\<close>

datatype json =
    JNull
  | JBool bool
  | JNum rat
  | JStr string
  | JArr "json list"
  | JObj "(string \<times> json) list"

text \<open>Thrown values: the error class and its \<^verbatim>\<open>message\<close>.\<close>

datatype js_error = Error string | TypeError string | SyntaxError string

fun message :: "js_error \<Rightarrow> string" where
  "message (Error m) = m"
| "message (TypeError m) = m"
| "message (SyntaxError m) = m"

text \<open>\<^verbatim>\<open>!v\<close> is false exactly for the truthy values.\<close>

fun truthy :: "json \<Rightarrow> bool" where
  "truthy JNull = False"
| "truthy (JBool b) = b"
| "truthy (JNum n) = (n \<noteq> 0)"
| "truthy (JStr s) = (s \<noteq> [])"
| "truthy (JArr xs) = True"
| "truthy (JObj ps) = True"

text \<open>
  \<^verbatim>\<open>v.key\<close> for the keys the program reads (\<^verbatim>\<open>password\<close>, \<^verbatim>\<open>role\<close>, \<^verbatim>\<open>id\<close>,
  \<^verbatim>\<open>name\<close>, \<^verbatim>\<open>email\<close>) on a value that is neither \<^verbatim>\<open>null\<close> nor \<^verbatim>\<open>undefined\<close>:
  only an object parsed from JSON can own such a property.
\<close>

fun get_prop :: "json \<Rightarrow> string \<Rightarrow> json option" where
  "get_prop (JObj ps) k = map_of ps k"
| "get_prop v k = None"

text \<open>
  \<^verbatim>\<open>{ ...v }\<close>: the own properties of an object, none for a number or a boolean. (A
  string or an array would contribute its indices; neither has a \<^verbatim>\<open>password\<close>
  property, so neither reaches the one spread of the program.)
\<close>

fun spread :: "json \<Rightarrow> (string \<times> json) list" where
  "spread (JObj ps) = ps"
| "spread v = []"

text \<open>\<^verbatim>\<open>delete obj.key\<close> on a property list.\<close>

definition delete_prop :: "string \<Rightarrow> (string \<times> json) list \<Rightarrow> (string \<times> json) list" where
  "delete_prop k ps = filter (\<lambda>kv. fst kv \<noteq> k) ps"

text \<open>
  The outcome of \<^verbatim>\<open>await fetch(...)\<close>: the promise rejects (network failure), or it
  resolves to a response with a status code. \<^verbatim>\<open>response.ok\<close> is true for the codes
  200 to 299. \<^verbatim>\<open>await response.json()\<close> either rejects or yields the parsed body.
\<close>

record 'b response =
  status :: nat
  body :: "js_error + 'b"

definition ok :: "'b response \<Rightarrow> bool" where
  "ok r = (200 \<le> status r \<and> status r \<le> 299)"

datatype 'b fetch_outcome = Rejected js_error | Resolved "'b response"

record 'p http_request =
  http_method :: string
  url :: string
  payload :: "'p option"

text \<open>\<^verbatim>\<open>constants.js\<close>\<close>

definition API_URLS_USERS :: string where
  "API_URLS_USERS = ''http://localhost:3000/users''"

definition API_URLS_PRODUCTS :: string where
  "API_URLS_PRODUCTS = ''http://localhost:3000/products''"

definition API_URLS_ORDERS :: string where
  "API_URLS_ORDERS = ''http://localhost:3000/orders''"

section \<open>Data model\<close>

text \<open>
  Product, as the views read it. The identifier is whatever JSON value the backend stores
  (a string such as \<^verbatim>\<open>p001\<close>, or a number). A price is a JavaScript number: a
  value of a type \<open>'n\<close> of which only the operations \<open>0\<close>, \<open>1\<close>, \<open>+\<close>, \<open>*\<close> and
  unary minus are used and no law is assumed, so that what is proved holds for the
  doubles of the browser as for any other arithmetic.
\<close>

record 'n product =
  prod_id :: json
  name :: string
  price :: 'n
  category :: string
  img :: string
  description :: string
  stock :: int

text \<open>
  A cart line \<^verbatim>\<open>{ product, quantity }\<close>. The program only ever writes \<^verbatim>\<open>1\<close>,
  \<^verbatim>\<open>q + 1\<close> and \<^verbatim>\<open>q - 1\<close> into \<^verbatim>\<open>quantity\<close>, so it is an integer.
\<close>

record 'n cart_item =
  product :: "'n product"
  quantity :: int

text \<open>
  The JavaScript number whose value is the integer \<open>q\<close>, reached from \<open>0\<close> by adding
  \<open>1\<close> (for doubles this is exact up to \<open>2^53\<close>, beyond which a quantity cannot grow).
\<close>

definition js_number :: "int \<Rightarrow> 'n::{zero,one,plus,uminus}" where
  "js_number q =
     (if 0 \<le> q then ((\<lambda>x. x + 1) ^^ nat q) 0
      else - (((\<lambda>x. x + 1) ^^ nat (- q)) 0))"

text \<open>
  \<^verbatim>\<open>localStorage\<close> holds two keys. An item is a string; the string that is the JSON
  text of a value \<open>v\<close> is \<open>JsonText v\<close> (\<^verbatim>\<open>JSON.parse\<close> of it gives \<open>v\<close> back), any other
  string is \<open>RawText\<close>. A missing key is \<open>None\<close>.
\<close>

datatype 'a ls_item = JsonText 'a | RawText string

record 'n local_storage =
  activeUser :: "json ls_item option"
  shoppingCart :: "'n cart_item list ls_item option"

section \<open>authService.js\<close>

datatype auth_result = AuthOk json | AuthFail string

fun success :: "auth_result \<Rightarrow> bool" where
  "success (AuthOk user) = True"
| "success (AuthFail err) = False"

definition msg_user_not_found :: string where
  "msg_user_not_found = ''Usuario no encontrado''"

definition msg_wrong_password :: string where
  "msg_wrong_password = ''Contrase'' @ [CHR 0xC3, CHR 0xB1] @ ''a incorrecta''"

definition msg_unexpected :: string where
  "msg_unexpected = ''Ocurri'' @ [CHR 0xC3, CHR 0xB3] @ '' un error inesperado''"

definition msg_email_taken :: string where
  "msg_email_taken = ''El correo electr'' @ [CHR 0xC3, CHR 0xB3] @ ''nico ya est''
     @ [CHR 0xC3, CHR 0xA1] @ '' registrado''"

definition users_query_url :: "string \<Rightarrow> string" where
  "users_query_url email = API_URLS_USERS @ ''?email='' @ email"

text \<open>
  \<^verbatim>\<open>login(email, password)\<close>. The second argument is the outcome of the one request the
  function makes, \<^verbatim>\<open>GET users_query_url email\<close>, whose body is an array. Every throw
  inside the \<^verbatim>\<open>try\<close> ends in the \<^verbatim>\<open>catch\<close>, which returns the generic failure.
  The result is the returned object and the \<^verbatim>\<open>localStorage\<close> afterwards.
\<close>

definition login ::
  "string \<Rightarrow> string \<Rightarrow> json list fetch_outcome \<Rightarrow> 'n local_storage
     \<Rightarrow> auth_result \<times> 'n local_storage" where
  "login email password fetched ls =
     (case fetched of
        Rejected e \<Rightarrow> (AuthFail msg_unexpected, ls)
      | Resolved response \<Rightarrow>
          if \<not> ok response then (AuthFail msg_unexpected, ls)
          else (case body response of
                  Inl e \<Rightarrow> (AuthFail msg_unexpected, ls)
                | Inr users \<Rightarrow>
                    (case users of
                       [] \<Rightarrow> (AuthFail msg_user_not_found, ls)
                     | user # rest \<Rightarrow>
                         if \<not> truthy user then (AuthFail msg_user_not_found, ls)
                         else if get_prop user ''password'' \<noteq> Some (JStr password)
                           then (AuthFail msg_wrong_password, ls)
                         else (let sessionUser = delete_prop ''password'' (spread user)
                               in (AuthOk (JObj sessionUser),
                                   ls\<lparr>activeUser := Some (JsonText (JObj sessionUser))\<rparr>)))))"

text \<open>
  \<^verbatim>\<open>register(userData)\<close> makes up to two requests: the lookup by email, whose answer is
  not checked for \<^verbatim>\<open>ok\<close>, and the creating POST. The result is the returned object and
  the requests issued, in order.
\<close>

record user_data =
  ud_name :: string
  ud_email :: string
  ud_password :: string
  ud_role :: string

definition register_failure :: "js_error \<Rightarrow> auth_result" where
  "register_failure e =
     AuthFail (if message e = [] then ''Error al registrar usuario'' else message e)"

definition register ::
  "user_data \<Rightarrow> json list fetch_outcome \<Rightarrow> json fetch_outcome
     \<Rightarrow> auth_result \<times> user_data http_request list" where
  "register userData checked posted =
     (let lookup = \<lparr>http_method = ''GET'', url = users_query_url (ud_email userData),
                     payload = None\<rparr>;
          create = \<lparr>http_method = ''POST'', url = API_URLS_USERS, payload = Some userData\<rparr>
      in case checked of
           Rejected e \<Rightarrow> (register_failure e, [lookup])
         | Resolved checkRef \<Rightarrow>
             (case body checkRef of
                Inl e \<Rightarrow> (register_failure e, [lookup])
              | Inr existingUsers \<Rightarrow>
                  if length existingUsers > 0 then (AuthFail msg_email_taken, [lookup])
                  else (case posted of
                          Rejected e \<Rightarrow> (register_failure e, [lookup, create])
                        | Resolved response \<Rightarrow>
                            if \<not> ok response
                            then (register_failure (Error ''No se pudo crear el usuario''),
                                  [lookup, create])
                            else (case body response of
                                    Inl e \<Rightarrow> (register_failure e, [lookup, create])
                                  | Inr newUser \<Rightarrow> (AuthOk newUser, [lookup, create])))))"

text \<open>\<^verbatim>\<open>getCurrentUser()\<close>: \<^verbatim>\<open>null\<close> is \<open>JNull\<close>.\<close>

definition getCurrentUser :: "'n local_storage \<Rightarrow> json" where
  "getCurrentUser ls =
     (case activeUser ls of
        None \<Rightarrow> JNull
      | Some (RawText s) \<Rightarrow> JNull
      | Some (JsonText v) \<Rightarrow> v)"

subsection \<open>The mock backend's user lookup\<close>

text \<open>
  Modelled from the spec: the mock REST backend is not part of the sources. Its users
  collection is a list of records, and a GET with a query string filters the collection
  by email: the answer to the lookup for \<open>email\<close> is the array of the records whose
  \<^verbatim>\<open>email\<close> is that string. (\<^verbatim>\<open>login\<close> and \<^verbatim>\<open>register\<close> put the email into
  the URL as it is; how a server decodes a query string is not modelled.)
\<close>

definition users_by_email :: "(string \<times> json) list list \<Rightarrow> string \<Rightarrow> json list" where
  "users_by_email db email =
     map JObj (filter (\<lambda>u. map_of u ''email'' = Some (JStr email)) db)"

text \<open>
  An outcome of the lookup request agrees with the backend when it is a failure of any
  kind (rejection, a status outside 200 to 299, an unreadable body), or carries the
  filtered collection.
\<close>

definition lookup_outcome :: "(string \<times> json) list list \<Rightarrow> string \<Rightarrow> json list fetch_outcome \<Rightarrow> bool" where
  "lookup_outcome db email fetched =
     (case fetched of
        Rejected e \<Rightarrow> True
      | Resolved r \<Rightarrow>
          (case body r of
             Inl e \<Rightarrow> True
           | Inr users \<Rightarrow> ok r \<longrightarrow> users = users_by_email db email))"


text \<open>The collection has a record with that email and exactly that password.\<close>

definition has_credentials :: "(string \<times> json) list list \<Rightarrow> string \<Rightarrow> string \<Rightarrow> bool" where
  "has_credentials db email password =
     list_ex (\<lambda>u. map_of u ''email'' = Some (JStr email)
                 \<and> map_of u ''password'' = Some (JStr password)) db"

text \<open>
  Modelled from the spec: what a request does to the users collection of the mock
  backend. A POST to the collection adds the posted record; \<^verbatim>\<open>register\<close> issues no
  other kind of writing request.
\<close>

definition user_of_data :: "user_data \<Rightarrow> (string \<times> json) list" where
  "user_of_data d = [(''name'', JStr (ud_name d)), (''email'', JStr (ud_email d)),
                     (''password'', JStr (ud_password d)), (''role'', JStr (ud_role d))]"

definition users_after :: "(string \<times> json) list list \<Rightarrow> user_data http_request \<Rightarrow> (string \<times> json) list list" where
  "users_after db req =
     (if http_method req = ''POST'' \<and> url req = API_URLS_USERS
      then (case payload req of None \<Rightarrow> db | Some d \<Rightarrow> db @ [user_of_data d])
      else db)"

section \<open>jsonService.js\<close>

text \<open>
  Every method of \<^verbatim>\<open>JsonService\<close> makes one \<^verbatim>\<open>fetch\<close> call; the model takes the
  outcome of that call and returns what the method throws (\<open>Inl\<close>) or returns (\<open>Inr\<close>).
\<close>

definition msg_products_api :: string where
  "msg_products_api = ''Could not connect to the Products API.''"

definition msg_orders_api :: string where
  "msg_orders_api = ''Could not connect to the Orders API.''"

text \<open>A status code inside a template string.\<close>

fun decimal :: "nat \<Rightarrow> string" where
  "decimal n =
     (if n < 10 then [char_of (48 + n)]
      else decimal (n div 10) @ [char_of (48 + n mod 10)])"

text \<open>
  The common body of the \<^verbatim>\<open>try\<close> blocks: await the fetch, throw
  \<^verbatim>\<open>new Error(msg)\<close> unless \<^verbatim>\<open>response.ok\<close>, then await \<^verbatim>\<open>response.json()\<close>.
\<close>

definition fetch_json :: "('b response \<Rightarrow> string) \<Rightarrow> 'b fetch_outcome \<Rightarrow> js_error + 'b" where
  "fetch_json msg fetched =
     (case fetched of
        Rejected e \<Rightarrow> Inl e
      | Resolved response \<Rightarrow>
          if \<not> ok response then Inl (Error (msg response)) else body response)"

text \<open>\<^verbatim>\<open>catch (error) { console.error(...); throw new Error(generic) }\<close>\<close>

definition catch_rethrow :: "string \<Rightarrow> js_error + 'b \<Rightarrow> js_error + 'b" where
  "catch_rethrow generic attempt =
     (case attempt of Inl error \<Rightarrow> Inl (Error generic) | Inr v \<Rightarrow> Inr v)"

definition getProducts :: "'b fetch_outcome \<Rightarrow> js_error + 'b" where
  "getProducts fetched =
     catch_rethrow msg_products_api
       (fetch_json (\<lambda>response. ''Error HTTP '' @ decimal (status response)) fetched)"

text \<open>\<^verbatim>\<open>product.id\<close> inside \<^verbatim>\<open>products.map\<close>: a \<^verbatim>\<open>null\<close> element throws.\<close>

fun read_id :: "json \<Rightarrow> js_error + json option" where
  "read_id JNull = Inl (TypeError ''Cannot read properties of null'')"
| "read_id v = Inr (get_prop v ''id'')"

fun map_ids :: "json list \<Rightarrow> js_error + json option list" where
  "map_ids [] = Inr []"
| "map_ids (p # ps) =
     (case read_id p of
        Inl e \<Rightarrow> Inl e
      | Inr i \<Rightarrow> (case map_ids ps of Inl e \<Rightarrow> Inl e | Inr is \<Rightarrow> Inr (i # is)))"

definition getProductsIDs :: "json list fetch_outcome \<Rightarrow> js_error + json option list" where
  "getProductsIDs fetched =
     catch_rethrow msg_products_api
       (case getProducts fetched of Inl e \<Rightarrow> Inl e | Inr products \<Rightarrow> map_ids products)"

definition getProductById :: "'b fetch_outcome \<Rightarrow> js_error + 'b" where
  "getProductById fetched =
     catch_rethrow msg_products_api
       (fetch_json (\<lambda>response. ''Producto no encontrado (HTTP '' @ decimal (status response) @ '')'')
          fetched)"

definition createProduct :: "'b fetch_outcome \<Rightarrow> js_error + 'b" where
  "createProduct fetched =
     catch_rethrow msg_products_api
       (fetch_json (\<lambda>response. ''Error HTTP '' @ decimal (status response)) fetched)"

text \<open>\<^verbatim>\<open>deleteProduct\<close> has no \<^verbatim>\<open>try\<close>: a rejection of the fetch propagates as it is.\<close>

definition deleteProduct :: "'b fetch_outcome \<Rightarrow> js_error + bool" where
  "deleteProduct fetched =
     (case fetched of
        Rejected e \<Rightarrow> Inl e
      | Resolved res \<Rightarrow>
          if \<not> ok res then Inl (Error ''Error al eliminar producto'') else Inr True)"

definition updateProduct :: "'b fetch_outcome \<Rightarrow> js_error + 'b" where
  "updateProduct fetched =
     catch_rethrow msg_products_api
       (fetch_json (\<lambda>response. ''Error HTTP '' @ decimal (status response)) fetched)"

definition createOrder :: "'b fetch_outcome \<Rightarrow> js_error + 'b" where
  "createOrder fetched =
     catch_rethrow msg_orders_api
       (fetch_json (\<lambda>response. ''Error HTTP '' @ decimal (status response)) fetched)"

text \<open>
  \<^verbatim>\<open>getOrderById\<close>: the \<^verbatim>\<open>catch\<close> logs and rethrows the error it caught
  (\<^verbatim>\<open>throw error\<close>).
\<close>

definition getOrderById :: "string \<Rightarrow> 'b fetch_outcome \<Rightarrow> js_error + 'b" where
  "getOrderById orderId fetched =
     (case fetch_json (\<lambda>response. ''No se pudo obtener la orden con id '' @ orderId) fetched of
        Inl error \<Rightarrow> Inl error
      | Inr order \<Rightarrow> Inr order)"

section \<open>menu.js: the cart\<close>

text \<open>
  The body of the order request. \<^verbatim>\<open>handleConfirmOrder\<close> builds the first six fields
  (\<^verbatim>\<open>orderData\<close>); \<^verbatim>\<open>JsonService.createOrder\<close> sends
  \<^verbatim>\<open>{ createdAt: ..., ...orderData }\<close>.
\<close>

record 'n order_item =
  oi_productId :: json
  oi_name :: string
  oi_price :: 'n
  oi_quantity :: int

record 'n order_data =
  od_userId :: "json option"
  od_user_name :: "json option"
  od_user_email :: "json option"
  od_items :: "'n order_item list"
  od_total :: 'n
  od_status :: string

record 'n order_body = "'n order_data" +
  createdAt :: string

text \<open>
  The state of one \<^verbatim>\<open>menuView\<close>: its variables \<^verbatim>\<open>cart\<close> and \<^verbatim>\<open>allProducts\<close>,
  \<^verbatim>\<open>localStorage\<close>, what the sidebar shows (the count badge, the total before
  \<^verbatim>\<open>toFixed\<close>, the text and colour of \<^verbatim>\<open>#orderMessage\<close>), and what the handlers
  did to the outside: requests sent, alerts raised, the location hash.
\<close>

record 'n menu_state =
  cart :: "'n cart_item list"
  allProducts :: "'n product list"
  storage :: "'n local_storage"
  cartCount :: int
  cartTotal :: 'n
  orderMessage :: "string \<times> string"
  requests :: "'n order_body http_request list"
  alerts :: "string list"
  location_hash :: string

definition loadCartFromStorage :: "'n local_storage \<Rightarrow> 'n cart_item list" where
  "loadCartFromStorage ls =
     (case shoppingCart ls of
        Some (JsonText stored) \<Rightarrow> stored
      | Some (RawText s) \<Rightarrow> []
      | None \<Rightarrow> [])"

definition saveCartToStorage :: "'n menu_state \<Rightarrow> 'n menu_state" where
  "saveCartToStorage st = st\<lparr>storage := (storage st)\<lparr>shoppingCart := Some (JsonText (cart st))\<rparr>\<rparr>"

text \<open>\<^verbatim>\<open>calculateCartTotals\<close>: two \<^verbatim>\<open>reduce\<close> calls, left to right from 0.\<close>

definition calculateCartTotals :: "('n::{zero,one,plus,times,uminus}) cart_item list \<Rightarrow> int \<times> 'n" where
  "calculateCartTotals c =
     (foldl (\<lambda>sum item. sum + quantity item) 0 c,
      foldl (\<lambda>sum item. sum + price (product item) * js_number (quantity item)) 0 c)"

definition updateSidebarUI :: "('n::{zero,one,plus,times,uminus}) menu_state \<Rightarrow> 'n menu_state" where
  "updateSidebarUI st =
     (let saved = saveCartToStorage st;
          (totalItems, totalPrice) = calculateCartTotals (cart saved)
      in saved\<lparr>cartCount := totalItems, cartTotal := totalPrice\<rparr>)"

text \<open>\<^verbatim>\<open>Array.prototype.findIndex\<close>; \<open>None\<close> is \<^verbatim>\<open>-1\<close>.\<close>

fun findIndex :: "('a \<Rightarrow> bool) \<Rightarrow> 'a list \<Rightarrow> nat option" where
  "findIndex P [] = None"
| "findIndex P (x # xs) =
     (if P x then Some 0 else map_option Suc (findIndex P xs))"

text \<open>\<^verbatim>\<open>arr.splice(i, 1)\<close>\<close>

definition splice1 :: "nat \<Rightarrow> 'a list \<Rightarrow> 'a list" where
  "splice1 i xs = take i xs @ drop (Suc i) xs"

text \<open>
  The handlers compare a product identifier with the string of a \<^verbatim>\<open>data-id\<close> attribute
  by \<^verbatim>\<open>==\<close>. That comparison is the parameter \<open>loose_eq\<close> of the functions below.

  \<^verbatim>\<open>addToCart(productId)\<close>: \<^verbatim>\<open>cart.find\<close> yields the first matching line, which is
  updated in place.
\<close>

definition addToCart ::
  "(json \<Rightarrow> string \<Rightarrow> bool) \<Rightarrow> ('n::{zero,one,plus,times,uminus}) menu_state \<Rightarrow> string
     \<Rightarrow> 'n menu_state" where
  "addToCart loose_eq st productId =
     (case List.find (\<lambda>p. loose_eq (prod_id p) productId) (allProducts st) of
        None \<Rightarrow> st
      | Some found \<Rightarrow>
          (case findIndex (\<lambda>item. loose_eq (prod_id (product item)) productId) (cart st) of
             Some i \<Rightarrow>
               updateSidebarUI
                 (st\<lparr>cart := (cart st)[i := (cart st ! i)\<lparr>quantity := quantity (cart st ! i) + 1\<rparr>]\<rparr>)
           | None \<Rightarrow>
               updateSidebarUI (st\<lparr>cart := cart st @ [\<lparr>product = found, quantity = 1\<rparr>]\<rparr>)))"

text \<open>
  \<^verbatim>\<open>handleConfirmOrder\<close>. Its environment is the outcome of the order request and the
  clock reading \<^verbatim>\<open>createOrder\<close> puts into \<^verbatim>\<open>createdAt\<close>. The button's text and
  \<^verbatim>\<open>disabled\<close> flag are restored by the \<^verbatim>\<open>finally\<close> and are left out.
\<close>

record checkout_env =
  order_response :: "json fetch_outcome"
  now :: string

definition order_items :: "'n cart_item list \<Rightarrow> 'n order_item list" where
  "order_items c =
     map (\<lambda>item. \<lparr>oi_productId = prod_id (product item), oi_name = name (product item),
                   oi_price = price (product item), oi_quantity = quantity item\<rparr>) c"

definition orderData :: "json \<Rightarrow> ('n::{zero,one,plus,times,uminus}) cart_item list \<Rightarrow> 'n order_data" where
  "orderData user c =
     \<lparr>od_userId = get_prop user ''id'',
      od_user_name = get_prop user ''name'',
      od_user_email = get_prop user ''email'',
      od_items = order_items c,
      od_total = foldl (\<lambda>sum item. sum + price (product item) * js_number (quantity item)) 0 c,
      od_status = ''pending''\<rparr>"

definition createOrder_request :: "string \<Rightarrow> 'n order_data \<Rightarrow> 'n order_body http_request" where
  "createOrder_request stamp d =
     \<lparr>http_method = ''POST'', url = API_URLS_ORDERS,
      payload = Some (order_data.extend d (order_body.fields stamp))\<rparr>"

definition handleConfirmOrder ::
  "checkout_env \<Rightarrow> ('n::{zero,one,plus,times,uminus}) menu_state \<Rightarrow> 'n menu_state" where
  "handleConfirmOrder env st =
     (let user = getCurrentUser (storage st)
      in if length (cart st) = 0
         then st\<lparr>orderMessage := (''Add items to cart first.'', ''var(--color-warning)'')\<rparr>
         else if \<not> truthy user
         then st\<lparr>alerts := alerts st @ [''You must be logged in to order.''],
                 location_hash := ''#login''\<rparr>
         else (let sent = st\<lparr>requests := requests st
                                @ [createOrder_request (now env) (orderData user (cart st))]\<rparr>
               in case createOrder (order_response env) of
                    Inr created \<Rightarrow>
                      (updateSidebarUI (sent\<lparr>cart := []\<rparr>))
                        \<lparr>orderMessage := (''Order placed successfully!'', ''var(--color-success)'')\<rparr>
                  | Inl error \<Rightarrow>
                      sent\<lparr>orderMessage := (''Error placing order.'', ''var(--color-error)'')\<rparr>))"

text \<open>
  The click listener of the sidebar. Of the clicked element it reads the \<^verbatim>\<open>data-id\<close>
  attribute, the \<^verbatim>\<open>id\<close> and the class list.
\<close>

record click_target =
  data_id :: "string option"
  target_id :: string
  classList :: "string list"

definition sidebar_click ::
  "(json \<Rightarrow> string \<Rightarrow> bool) \<Rightarrow> checkout_env \<Rightarrow> ('n::{zero,one,plus,times,uminus}) menu_state
     \<Rightarrow> click_target \<Rightarrow> 'n menu_state" where
  "sidebar_click loose_eq env st target =
     (if data_id target = None \<or> data_id target = Some []
      then (if target_id target = ''clearCartBtn'' then updateSidebarUI (st\<lparr>cart := []\<rparr>)
            else if target_id target = ''confirmOrderBtn'' then handleConfirmOrder env st
            else st)
      else (case findIndex (\<lambda>item. loose_eq (prod_id (product item)) (the (data_id target)))
                   (cart st) of
              None \<Rightarrow> st
            | Some itemIndex \<Rightarrow>
                (let line = cart st ! itemIndex
                 in updateSidebarUI
                      (st\<lparr>cart :=
                         (if ''increase'' \<in> set (classList target)
                          then (cart st)[itemIndex := line\<lparr>quantity := quantity line + 1\<rparr>]
                          else if ''decrease'' \<in> set (classList target)
                          then (if quantity line > 1
                                then (cart st)[itemIndex := line\<lparr>quantity := quantity line - 1\<rparr>]
                                else splice1 itemIndex (cart st))
                          else if ''remove'' \<in> set (classList target)
                          then splice1 itemIndex (cart st)
                          else cart st)\<rparr>))))"

text \<open>The buttons \<^verbatim>\<open>buildCartItemHTML\<close> and the sidebar markup create.\<close>

definition decrease_button :: "string \<Rightarrow> click_target" where
  "decrease_button d =
     \<lparr>data_id = Some d, target_id = [], classList = [''quantity-button'', ''decrease'']\<rparr>"

definition increase_button :: "string \<Rightarrow> click_target" where
  "increase_button d =
     \<lparr>data_id = Some d, target_id = [], classList = [''quantity-button'', ''increase'']\<rparr>"

definition remove_button :: "string \<Rightarrow> click_target" where
  "remove_button d =
     \<lparr>data_id = Some d, target_id = [], classList = [''remove-button'', ''remove'']\<rparr>"

definition clearCartBtn :: click_target where
  "clearCartBtn = \<lparr>data_id = None, target_id = ''clearCartBtn'', classList = [''link-button'']\<rparr>"

definition confirmOrderBtn :: click_target where
  "confirmOrderBtn =
     \<lparr>data_id = None, target_id = ''confirmOrderBtn'', classList = [''button'', ''primary'']\<rparr>"

text \<open>
  What can happen to a cart: a click on an \<^verbatim>\<open>.add-to-cart-btn\<close> of the product grid
  (with the button's \<^verbatim>\<open>data-id\<close>), or a click inside the sidebar.
\<close>

datatype cart_event =
    AddToCartClick string
  | SidebarClick click_target checkout_env

fun cart_step ::
  "(json \<Rightarrow> string \<Rightarrow> bool) \<Rightarrow> ('n::{zero,one,plus,times,uminus}) menu_state \<Rightarrow> cart_event
     \<Rightarrow> 'n menu_state" where
  "cart_step loose_eq st (AddToCartClick productId) = addToCart loose_eq st productId"
| "cart_step loose_eq st (SidebarClick target env) = sidebar_click loose_eq env st target"

definition cart_run ::
  "(json \<Rightarrow> string \<Rightarrow> bool) \<Rightarrow> ('n::{zero,one,plus,times,uminus}) menu_state \<Rightarrow> cart_event list
     \<Rightarrow> 'n menu_state" where
  "cart_run loose_eq st evs = foldl (cart_step loose_eq) st evs"

definition quantities_ok :: "'n cart_item list \<Rightarrow> bool" where
  "quantities_ok c = list_all (\<lambda>item. 1 \<le> quantity item) c"

text \<open>
  The sum of price times quantity over the lines of a cart: starting from \<open>acc\<close>, the
  lines are added one after the other in the order of the cart. The order is part of
  the definition, since the addition of numbers need not be associative.
\<close>

fun line_totals_sum :: "('n::{zero,one,plus,times,uminus}) \<Rightarrow> 'n cart_item list \<Rightarrow> 'n" where
  "line_totals_sum acc [] = acc"
| "line_totals_sum acc (item # rest) =
     line_totals_sum (acc + price (product item) * js_number (quantity item)) rest"

section \<open>Markup: Card.js and the header of menu.js\<close>













section \<open>router.js and main.js\<close>

text \<open>
  A DOM node is kept as a tree: an element has a tag, its class list, its other
  attributes and its children. A piece of text is literal text or an interpolated value
  kept as the value (\<open>None\<close> for \<^verbatim>\<open>undefined\<close>). \<open>Markup\<close> is a string handed to
  \<^verbatim>\<open>innerHTML\<close> as a whole.
\<close>

datatype inline = Lit string | Interp "json option"














section \<open>Sample data\<close>

text \<open>Concrete values on which the theorems below are exercised.\<close>

definition sample_user :: "(string \<times> json) list" where
  "sample_user = [(''id'', JStr ''u1''), (''name'', JStr ''Ana''),
                  (''email'', JStr ''ana@example.com''), (''password'', JStr ''secret''),
                  (''role'', JStr ''admin'')]"

definition sample_session_user :: "(string \<times> json) list" where
  "sample_session_user = [(''id'', JStr ''u1''), (''name'', JStr ''Ana''),
                          (''email'', JStr ''ana@example.com''), (''role'', JStr ''admin'')]"

definition sample_lookup :: "json list fetch_outcome" where
  "sample_lookup = Resolved \<lparr>status = 200, body = Inr [JObj sample_user]\<rparr>"

definition sample_user_data :: user_data where
  "sample_user_data = \<lparr>ud_name = ''Ana'', ud_email = ''ana@example.com'',
                        ud_password = ''other'', ud_role = ''user''\<rparr>"

definition empty_storage :: "rat local_storage" where
  "empty_storage = \<lparr>activeUser = None, shoppingCart = None\<rparr>"

definition network_down :: "json fetch_outcome" where
  "network_down = Rejected (TypeError ''Failed to fetch'')"

definition server_error :: "json response" where
  "server_error = \<lparr>status = 500, body = Inr JNull\<rparr>"

definition burger :: "rat product" where
  "burger = \<lparr>prod_id = JStr ''p001'', name = ''Burger'', price = 19 / 2,
             category = ''Burgers'', img = ''burger.png'', description = ''Classic'',
             stock = 10\<rparr>"

definition cola :: "rat product" where
  "cola = \<lparr>prod_id = JStr ''p002'', name = ''Cola'', price = 3, category = ''Drinks'',
           img = ''cola.png'', description = ''Cold'', stock = 50\<rparr>"

text \<open>\<^verbatim>\<open>==\<close> between a string identifier and a \<^verbatim>\<open>data-id\<close> string.\<close>

definition string_id_eq :: "json \<Rightarrow> string \<Rightarrow> bool" where
  "string_id_eq i d = (i = JStr d)"

definition sample_menu :: "rat menu_state" where
  "sample_menu =
     \<lparr>cart = [\<lparr>product = burger, quantity = 1\<rparr>, \<lparr>product = cola, quantity = 2\<rparr>],
      allProducts = [burger, cola],
      storage = \<lparr>activeUser = Some (JsonText (JObj sample_session_user)),
                 shoppingCart = Some (JsonText [\<lparr>product = burger, quantity = 1\<rparr>,
                                                \<lparr>product = cola, quantity = 2\<rparr>])\<rparr>,
      cartCount = 3, cartTotal = 31 / 2, orderMessage = ([], []), requests = [],
      alerts = [], location_hash = ''#menu''\<rparr>"

definition empty_menu :: "rat menu_state" where
  "empty_menu = sample_menu\<lparr>cart := []\<rparr>"

definition failing_checkout :: checkout_env where
  "failing_checkout = \<lparr>order_response = network_down, now = ''2024-06-15T14:30:00.000Z''\<rparr>"

definition sample_clicks :: "cart_event list" where
  "sample_clicks =
     [AddToCartClick ''p001'',
      SidebarClick (decrease_button ''p002'') failing_checkout,
      SidebarClick (decrease_button ''p002'') failing_checkout,
      SidebarClick (remove_button ''p001'') failing_checkout,
      AddToCartClick ''p002'',
      SidebarClick (increase_button ''p002'') failing_checkout]"







section \<open>Auxiliary facts\<close>

lemma map_of_delete_prop:
  "map_of (delete_prop k ps) k' = (if k' = k then None else map_of ps k')"
  unfolding delete_prop_def by (induction ps) auto

lemma foldl_line_totals:
  "foldl (\<lambda>sum item. sum + price (product item) * js_number (quantity item)) acc c
     = line_totals_sum acc c"
  by (induction c arbitrary: acc) simp_all

lemma js_number_of_int: "js_number q = (of_int q :: 'a::ring_1)"
proof -
  have "((\<lambda>x. x + 1) ^^ n) 0 = (of_nat n :: 'a)" for n
    by (induction n) simp_all
  then show ?thesis by (simp add: js_number_def)
qed

text \<open>In an arithmetic with the laws of a ring the sum is the sum of the list of line totals.\<close>

lemma line_totals_sum_exact:
  fixes acc :: "'a::ring_1"
  shows "line_totals_sum acc c
           = acc + (\<Sum>item\<leftarrow>c. price (product item) * of_int (quantity item))"
  by (induction c arbitrary: acc) (simp_all add: js_number_of_int add.assoc)

lemma findIndex_Some:
  "findIndex P xs = Some i \<Longrightarrow> i < length xs \<and> P (xs ! i)"
proof (induction xs arbitrary: i)
  case Nil
  then show ?case by simp
next
  case (Cons x xs)
  then show ?case by (auto split: if_splits)
qed

lemma auth_messages_nonempty:
  "msg_unexpected \<noteq> []" "msg_user_not_found \<noteq> []" "msg_wrong_password \<noteq> []"
  by (simp_all add: msg_unexpected_def msg_user_not_found_def msg_wrong_password_def)

lemma users_by_email_head:
  assumes "users_by_email db email = u # rest"
  shows "\<exists>props \<in> set db. u = JObj props \<and> map_of props ''email'' = Some (JStr email)"
proof -
  have "u \<in> set (users_by_email db email)" using assms by simp
  then show ?thesis unfolding users_by_email_def by auto
qed

lemma login_success_cases:
  assumes "success (fst (login email password fetched ls))"
  obtains r u rest where "fetched = Resolved r" "ok r" "body r = Inr (u # rest)"
    "truthy u" "get_prop u ''password'' = Some (JStr password)"
  using assms unfolding login_def
  by (auto split: fetch_outcome.splits if_splits sum.splits list.splits simp: Let_def)

lemma sample_login:
  "login ''ana@example.com'' ''secret'' sample_lookup empty_storage
     = (AuthOk (JObj sample_session_user),
        \<lparr>activeUser = Some (JsonText (JObj sample_session_user)), shoppingCart = None\<rparr>)"
  by (simp add: login_def sample_lookup_def sample_user_def sample_session_user_def
      empty_storage_def ok_def delete_prop_def Let_def)

section \<open>Login and registration\<close>

text \<open>
  Claim C1. Let the lookup request of \<^verbatim>\<open>login\<close> end in any way the backend allows: a
  failure, or the records of the users collection with the given email. Then a login
  succeeds only if the collection has a record with that email and exactly that
  password; and when there is no such record, the login returns a failure with a
  non-empty error message and leaves \<^verbatim>\<open>localStorage\<close> as it was.
\<close>

theorem login_only_with_matching_record:
  assumes "lookup_outcome db email fetched"
  shows "(success (fst (login email password fetched ls)) \<longrightarrow> has_credentials db email password)
       \<and> (\<not> has_credentials db email password \<longrightarrow>
            (\<exists>err. err \<noteq> [] \<and> fst (login email password fetched ls) = AuthFail err)
            \<and> snd (login email password fetched ls) = ls)"
proof -
  have ok_case: "has_credentials db email password"
    if "success (fst (login email password fetched ls))"
  proof -
    from that obtain r u rest where r: "fetched = Resolved r" "ok r" "body r = Inr (u # rest)"
      and pw: "get_prop u ''password'' = Some (JStr password)"
      by (rule login_success_cases)
    from assms r have "users_by_email db email = u # rest"
      unfolding lookup_outcome_def by simp
    from users_by_email_head[OF this] obtain props where
      "props \<in> set db" "u = JObj props" "map_of props ''email'' = Some (JStr email)" by blast
    with pw show ?thesis unfolding has_credentials_def list_ex_iff by auto
  qed
  have fail_case: "(\<exists>err. err \<noteq> [] \<and> fst (login email password fetched ls) = AuthFail err)
            \<and> snd (login email password fetched ls) = ls"
    if "\<not> success (fst (login email password fetched ls))"
    using that auth_messages_nonempty unfolding login_def
    by (auto split: fetch_outcome.splits if_splits sum.splits list.splits simp: Let_def)
  from ok_case fail_case show ?thesis by blast
qed

theorem login_only_with_matching_record_witness:
  "lookup_outcome [sample_user] ''ana@example.com'' sample_lookup
   \<and> success (fst (login ''ana@example.com'' ''secret'' sample_lookup empty_storage))
   \<and> has_credentials [sample_user] ''ana@example.com'' ''secret''
   \<and> \<not> has_credentials [sample_user] ''ana@example.com'' ''guess''
   \<and> snd (login ''ana@example.com'' ''guess'' sample_lookup empty_storage) = empty_storage"
proof -
  have h: "lookup_outcome [sample_user] ''ana@example.com'' sample_lookup"
    by (simp add: lookup_outcome_def sample_lookup_def users_by_email_def sample_user_def)
  have s: "success (fst (login ''ana@example.com'' ''secret'' sample_lookup empty_storage))"
    by (simp add: sample_login)
  have n: "\<not> has_credentials [sample_user] ''ana@example.com'' ''guess''"
    by (simp add: has_credentials_def sample_user_def)
  from login_only_with_matching_record[OF h, of "''secret''" empty_storage] s
  have c: "has_credentials [sample_user] ''ana@example.com'' ''secret''" by blast
  from login_only_with_matching_record[OF h, of "''guess''" empty_storage] n
  have k: "snd (login ''ana@example.com'' ''guess'' sample_lookup empty_storage) = empty_storage"
    by blast
  from h s c n k show ?thesis by blast
qed

text \<open>
  Claim C9. When \<^verbatim>\<open>login\<close> succeeds, the first record of the answer is an object; the
  value stored under \<^verbatim>\<open>activeUser\<close> (and returned as \<^verbatim>\<open>user\<close>) is an object with
  no \<^verbatim>\<open>password\<close> property, and every other property of the record, \<^verbatim>\<open>id\<close>,
  \<^verbatim>\<open>name\<close>, \<^verbatim>\<open>email\<close> and \<^verbatim>\<open>role\<close> among them, has in it the value it has in
  the record.
\<close>

theorem login_session_without_password:
  assumes "fst (login email password fetched ls) = AuthOk stored"
  shows "\<exists>r props rest session.
           fetched = Resolved r \<and> body r = Inr (JObj props # rest) \<and> stored = JObj session
         \<and> activeUser (snd (login email password fetched ls)) = Some (JsonText (JObj session))
         \<and> map_of session ''password'' = None
         \<and> (\<forall>k. k \<noteq> ''password'' \<longrightarrow> map_of session k = map_of props k)"
proof -
  from assms have "success (fst (login email password fetched ls))" by simp
  then obtain r u rest where r: "fetched = Resolved r" "ok r" "body r = Inr (u # rest)"
    and t: "truthy u" and pw: "get_prop u ''password'' = Some (JStr password)"
    by (rule login_success_cases)
  from pw obtain props where u: "u = JObj props" by (cases u) auto
  let ?session = "delete_prop ''password'' props"
  have res: "login email password fetched ls
       = (AuthOk (JObj ?session), ls\<lparr>activeUser := Some (JsonText (JObj ?session))\<rparr>)"
    using r t pw u unfolding login_def by (simp add: Let_def)
  with assms have "stored = JObj ?session" by simp
  with r u res show ?thesis by (simp add: map_of_delete_prop)
qed

theorem login_session_without_password_witness:
  "fst (login ''ana@example.com'' ''secret'' sample_lookup empty_storage)
     = AuthOk (JObj sample_session_user)
   \<and> activeUser (snd (login ''ana@example.com'' ''secret'' sample_lookup empty_storage))
     = Some (JsonText (JObj sample_session_user))
   \<and> map_of sample_session_user ''password'' = None
   \<and> map_of sample_session_user ''role'' = map_of sample_user ''role''"
proof -
  have h: "fst (login ''ana@example.com'' ''secret'' sample_lookup empty_storage)
             = AuthOk (JObj sample_session_user)"
    by (simp add: sample_login)
  from login_session_without_password[OF h] obtain r props rest session where
    f: "sample_lookup = Resolved r" "body r = Inr (JObj props # rest)"
    and s: "JObj sample_session_user = JObj session"
    and a: "activeUser (snd (login ''ana@example.com'' ''secret'' sample_lookup empty_storage))
              = Some (JsonText (JObj session))"
    and p: "map_of session ''password'' = None"
    and o: "\<forall>k. k \<noteq> ''password'' \<longrightarrow> map_of session k = map_of props k"
    by blast
  from f have "props = sample_user" by (auto simp: sample_lookup_def)
  with s o have "map_of sample_session_user ''role'' = map_of sample_user ''role''" by simp
  with h s a p show ?thesis by simp
qed




text \<open>
  What the amended claim leaves out: after a lookup answered with status 500 and an empty
  array, \<^verbatim>\<open>register\<close> goes on to the POST, and a second record with the email is
  created.
\<close>

lemma register_lookup_status_not_tested:
  "lookup_outcome [sample_user] (ud_email sample_user_data)
     (Resolved \<lparr>status = 500, body = Inr []\<rparr>)
   \<and> foldl users_after [sample_user]
        (snd (register sample_user_data (Resolved \<lparr>status = 500, body = Inr []\<rparr>)
               (Resolved \<lparr>status = 201, body = Inr JNull\<rparr>)))
       = [sample_user, user_of_data sample_user_data]"
  by (simp add: register_def lookup_outcome_def ok_def users_after_def Let_def
      API_URLS_USERS_def)

section \<open>Failures of the service layer\<close>

lemma fetch_json_failure:
  "fetch_json msg (Rejected e) = Inl e"
  "\<not> ok r \<Longrightarrow> fetch_json msg (Resolved r) = Inl (Error (msg r))"
  by (simp_all add: fetch_json_def)

lemma catch_rethrow_Inl: "catch_rethrow generic (Inl e) = Inl (Error generic)"
  by (simp add: catch_rethrow_def)

text \<open>
  Claim C7, as stated, fails: \<^verbatim>\<open>getOrderById\<close> rethrows what it caught, so after a
  network failure the caller receives the rejection of \<^verbatim>\<open>fetch\<close>, and after a
  response with status 500 the error made from the order identifier.
\<close>

theorem service_failures_distinguishable:
  "\<not> ok \<lparr>status = 500, body = Inr JNull\<rparr>
   \<and> getOrderById ''o001'' (Rejected (TypeError ''Failed to fetch'') :: json fetch_outcome)
       = Inl (TypeError ''Failed to fetch'')
   \<and> getOrderById ''o001'' (Resolved \<lparr>status = 500, body = Inr JNull\<rparr>)
       = Inl (Error ''No se pudo obtener la orden con id o001'')
   \<and> getOrderById ''o001'' (Rejected (TypeError ''Failed to fetch''))
       \<noteq> getOrderById ''o001'' (Resolved \<lparr>status = 500, body = Inr JNull\<rparr>)"
  by (simp add: getOrderById_def fetch_json_def ok_def)

text \<open>
  Claim C7, amended. For \<^verbatim>\<open>getProducts\<close>, \<^verbatim>\<open>getProductById\<close>,
  \<^verbatim>\<open>getProductsIDs\<close>, \<^verbatim>\<open>createProduct\<close>, \<^verbatim>\<open>updateProduct\<close> and
  \<^verbatim>\<open>createOrder\<close>, a rejected fetch and a response with a status outside 200 to 299
  throw the same error, fixed per resource. \<^verbatim>\<open>getOrderById\<close> and
  \<^verbatim>\<open>deleteProduct\<close> pass a rejection on as it is and throw an error of their own for
  such a status.
\<close>

theorem service_generic_error_on_failure:
  assumes "\<not> ok r" and "\<not> ok ids_r"
  shows "getProducts (Rejected e) = Inl (Error msg_products_api)
       \<and> getProducts (Resolved r) = Inl (Error msg_products_api)
       \<and> getProductById (Rejected e) = Inl (Error msg_products_api)
       \<and> getProductById (Resolved r) = Inl (Error msg_products_api)
       \<and> getProductsIDs (Rejected e) = Inl (Error msg_products_api)
       \<and> getProductsIDs (Resolved ids_r) = Inl (Error msg_products_api)
       \<and> createProduct (Rejected e) = Inl (Error msg_products_api)
       \<and> createProduct (Resolved r) = Inl (Error msg_products_api)
       \<and> updateProduct (Rejected e) = Inl (Error msg_products_api)
       \<and> updateProduct (Resolved r) = Inl (Error msg_products_api)
       \<and> createOrder (Rejected e) = Inl (Error msg_orders_api)
       \<and> createOrder (Resolved r) = Inl (Error msg_orders_api)
       \<and> getOrderById orderId (Rejected e) = Inl e
       \<and> getOrderById orderId (Resolved r)
           = Inl (Error (''No se pudo obtener la orden con id '' @ orderId))
       \<and> deleteProduct (Rejected e) = Inl e
       \<and> deleteProduct (Resolved r) = Inl (Error ''Error al eliminar producto'')"
  using assms
  by (simp add: getProducts_def getProductById_def getProductsIDs_def createProduct_def
      updateProduct_def createOrder_def getOrderById_def deleteProduct_def
      fetch_json_failure catch_rethrow_Inl)

theorem service_generic_error_on_failure_witness:
  "\<not> ok server_error
   \<and> getProducts network_down = Inl (Error msg_products_api)
   \<and> getProducts (Resolved server_error) = Inl (Error msg_products_api)
   \<and> createOrder network_down = Inl (Error msg_orders_api)
   \<and> createOrder (Resolved server_error) = Inl (Error msg_orders_api)
   \<and> deleteProduct network_down = Inl (TypeError ''Failed to fetch'')
   \<and> deleteProduct (Resolved server_error) = Inl (Error ''Error al eliminar producto'')"
proof -
  have h: "\<not> ok server_error" by (simp add: ok_def server_error_def)
  have k: "\<not> ok \<lparr>status = 404, body = Inr ([] :: json list)\<rparr>" by (simp add: ok_def)
  from service_generic_error_on_failure[OF h k, of "TypeError ''Failed to fetch''" "''o001''"] h
  show ?thesis unfolding network_down_def by blast
qed

section \<open>The cart and the checkout\<close>

lemma cart_updateSidebarUI [simp]: "cart (updateSidebarUI st) = cart st"
  by (simp add: updateSidebarUI_def saveCartToStorage_def Let_def split: prod.splits)

lemma allProducts_updateSidebarUI [simp]: "allProducts (updateSidebarUI st) = allProducts st"
  by (simp add: updateSidebarUI_def saveCartToStorage_def Let_def split: prod.splits)

lemma quantities_ok_update:
  "quantities_ok c \<Longrightarrow> 1 \<le> quantity x \<Longrightarrow> quantities_ok (c[i := x])"
  unfolding quantities_ok_def list_all_iff by (auto dest: set_update_subset_insert[THEN subsetD])

lemma quantities_ok_splice1: "quantities_ok c \<Longrightarrow> quantities_ok (splice1 i c)"
  unfolding quantities_ok_def splice1_def list_all_iff
  by (auto dest: in_set_takeD in_set_dropD)

lemma quantities_ok_nth: "quantities_ok c \<Longrightarrow> i < length c \<Longrightarrow> 1 \<le> quantity (c ! i)"
  unfolding quantities_ok_def list_all_iff by simp

lemma addToCart_quantities:
  assumes "quantities_ok (cart st)"
  shows "quantities_ok (cart (addToCart loose_eq st productId))"
proof (cases "List.find (\<lambda>p. loose_eq (prod_id p) productId) (allProducts st)")
  case None
  then show ?thesis using assms by (simp add: addToCart_def)
next
  case known: (Some found)
  show ?thesis
  proof (cases "findIndex (\<lambda>item. loose_eq (prod_id (product item)) productId) (cart st)")
    case None
    with known assms show ?thesis
      by (simp add: addToCart_def quantities_ok_def)
  next
    case (Some i)
    from findIndex_Some[OF this] have "i < length (cart st)" by simp
    with assms have "1 \<le> quantity (cart st ! i)" by (rule quantities_ok_nth)
    then have "quantities_ok
        ((cart st)[i := (cart st ! i)\<lparr>quantity := quantity (cart st ! i) + 1\<rparr>])"
      using assms by (intro quantities_ok_update) simp_all
    with Some known show ?thesis by (simp add: addToCart_def)
  qed
qed

lemma handleConfirmOrder_cart:
  "cart (handleConfirmOrder env st) = cart st \<or> cart (handleConfirmOrder env st) = []"
  by (simp add: handleConfirmOrder_def Let_def split: sum.splits)

lemma sidebar_click_quantities:
  assumes "quantities_ok (cart st)"
  shows "quantities_ok (cart (sidebar_click loose_eq env st target))"
proof (cases "data_id target = None \<or> data_id target = Some []")
  case True
  have "quantities_ok (cart (handleConfirmOrder env st))"
    using handleConfirmOrder_cart[of env st] assms by (auto simp: quantities_ok_def)
  with True assms show ?thesis
    by (auto simp: sidebar_click_def quantities_ok_def)
next
  case False
  show ?thesis
  proof (cases "findIndex (\<lambda>item. loose_eq (prod_id (product item)) (the (data_id target)))
                  (cart st)")
    case None
    with False assms show ?thesis by (auto simp: sidebar_click_def)
  next
    case (Some i)
    from findIndex_Some[OF this] have i: "i < length (cart st)" by simp
    with assms have q: "1 \<le> quantity (cart st ! i)" by (rule quantities_ok_nth)
    have inc: "quantities_ok
        ((cart st)[i := (cart st ! i)\<lparr>quantity := quantity (cart st ! i) + 1\<rparr>])"
      using assms q by (intro quantities_ok_update) simp_all
    have dec: "quantity (cart st ! i) > 1 \<Longrightarrow> quantities_ok
        ((cart st)[i := (cart st ! i)\<lparr>quantity := quantity (cart st ! i) - 1\<rparr>])"
      using assms by (intro quantities_ok_update) simp_all
    from False Some inc dec quantities_ok_splice1[OF assms, of i] assms
    show ?thesis by (auto simp: sidebar_click_def Let_def)
  qed
qed

lemma storage_updateSidebarUI [simp]:
  "loadCartFromStorage (storage (updateSidebarUI st)) = cart st"
  by (simp add: updateSidebarUI_def saveCartToStorage_def loadCartFromStorage_def Let_def
      split: prod.splits)

lemma addToCart_saved:
  "loadCartFromStorage (storage (addToCart loose_eq st productId))
     = loadCartFromStorage (storage st)
   \<or> loadCartFromStorage (storage (addToCart loose_eq st productId))
     = cart (addToCart loose_eq st productId)"
  by (simp add: addToCart_def split: option.splits)

lemma handleConfirmOrder_saved:
  "loadCartFromStorage (storage (handleConfirmOrder env st)) = loadCartFromStorage (storage st)
   \<or> loadCartFromStorage (storage (handleConfirmOrder env st))
     = cart (handleConfirmOrder env st)"
  by (simp add: handleConfirmOrder_def Let_def split: sum.splits)

lemma sidebar_click_saved:
  "loadCartFromStorage (storage (sidebar_click loose_eq env st target))
     = loadCartFromStorage (storage st)
   \<or> loadCartFromStorage (storage (sidebar_click loose_eq env st target))
     = cart (sidebar_click loose_eq env st target)"
  using handleConfirmOrder_saved[of env st]
  by (simp add: sidebar_click_def Let_def split: option.splits)

lemma cart_step_saved:
  assumes "quantities_ok (cart st)" and "quantities_ok (loadCartFromStorage (storage st))"
  shows "quantities_ok (loadCartFromStorage (storage (cart_step loose_eq st ev)))"
proof (cases ev)
  case (AddToCartClick productId)
  with addToCart_saved[of loose_eq st productId] addToCart_quantities[OF assms(1)] assms(2)
  show ?thesis by auto
next
  case (SidebarClick target env)
  with sidebar_click_saved[of loose_eq env st target] sidebar_click_quantities[OF assms(1)]
    assms(2)
  show ?thesis by auto
qed

lemma cart_step_quantities:
  "quantities_ok (cart st) \<Longrightarrow> quantities_ok (cart (cart_step loose_eq st ev))"
  by (cases ev) (simp_all add: addToCart_quantities sidebar_click_quantities)

lemma cart_run_quantities:
  "quantities_ok (cart st) \<Longrightarrow> quantities_ok (cart (cart_run loose_eq st evs))"
  unfolding cart_run_def
  by (induction evs arbitrary: st) (simp_all add: cart_step_quantities)

lemma cart_run_saved:
  "quantities_ok (cart st) \<Longrightarrow> quantities_ok (loadCartFromStorage (storage st))
   \<Longrightarrow> quantities_ok (loadCartFromStorage (storage (cart_run loose_eq st evs)))"
  unfolding cart_run_def
  by (induction evs arbitrary: st) (simp_all add: cart_step_quantities cart_step_saved)

lemma decrease_at_one:
  assumes "d \<noteq> []"
    and "findIndex (\<lambda>item. loose_eq (prod_id (product item)) d) (cart st) = Some i"
    and "quantity (cart st ! i) = 1"
  shows "cart (sidebar_click loose_eq env st (decrease_button d))
           = take i (cart st) @ drop (Suc i) (cart st)"
  using assms by (simp add: sidebar_click_def decrease_button_def Let_def splice1_def)

lemma sample_menu_quantities: "quantities_ok (cart sample_menu)"
  by (simp add: quantities_ok_def sample_menu_def)

lemma sample_menu_user: "truthy (getCurrentUser (storage sample_menu))"
  by (simp add: sample_menu_def getCurrentUser_def)

text \<open>
  Claim C2. From a cart in which every line has quantity at least 1 (the empty cart is
  one), every sequence of clicks (add to cart, increase, decrease, remove, clear all,
  confirm order) leads to a cart in which every line has quantity at least 1; and if
  the cart saved in \<^verbatim>\<open>localStorage\<close>, from which the next visit starts, was such a
  cart, it still is one. A click on the decrease button of a line whose quantity is 1
  removes that line.
\<close>

theorem cart_quantities_stay_positive:
  assumes "quantities_ok (cart st)"
  shows "quantities_ok (cart (cart_run loose_eq st evs))
       \<and> (quantities_ok (loadCartFromStorage (storage st)) \<longrightarrow>
            quantities_ok (loadCartFromStorage (storage (cart_run loose_eq st evs))))
       \<and> (d \<noteq> []
            \<and> findIndex (\<lambda>item. loose_eq (prod_id (product item)) d) (cart st) = Some i
            \<and> quantity (cart st ! i) = 1
          \<longrightarrow> cart (sidebar_click loose_eq env st (decrease_button d))
                = take i (cart st) @ drop (Suc i) (cart st))"
  using cart_run_quantities[OF assms] cart_run_saved[OF assms] decrease_at_one by blast

theorem cart_quantities_stay_positive_witness:
  "quantities_ok (cart sample_menu)
   \<and> quantities_ok (cart (cart_run string_id_eq sample_menu sample_clicks))
   \<and> cart (cart_run string_id_eq sample_menu sample_clicks) = [\<lparr>product = cola, quantity = 2\<rparr>]
   \<and> cart (sidebar_click string_id_eq failing_checkout sample_menu (decrease_button ''p001''))
       = [\<lparr>product = cola, quantity = 2\<rparr>]"
proof -
  note t = cart_quantities_stay_positive[OF sample_menu_quantities,
      of string_id_eq sample_clicks "''p001''" 0 failing_checkout]
  have f: "findIndex (\<lambda>item. string_id_eq (prod_id (product item)) ''p001'') (cart sample_menu)
             = Some 0"
    by (simp add: sample_menu_def string_id_eq_def burger_def)
  have q: "quantity (cart sample_menu ! 0) = 1" by (simp add: sample_menu_def)
  from t f q have
    "cart (sidebar_click string_id_eq failing_checkout sample_menu (decrease_button ''p001''))
       = take 0 (cart sample_menu) @ drop (Suc 0) (cart sample_menu)" by simp
  then have d:
    "cart (sidebar_click string_id_eq failing_checkout sample_menu (decrease_button ''p001''))
       = [\<lparr>product = cola, quantity = 2\<rparr>]" by (simp add: sample_menu_def)
  have r: "cart (cart_run string_id_eq sample_menu sample_clicks)
             = [\<lparr>product = cola, quantity = 2\<rparr>]"
    by (simp add: cart_run_def sample_clicks_def sample_menu_def addToCart_def
        sidebar_click_def string_id_eq_def burger_def cola_def decrease_button_def
        increase_button_def remove_button_def splice1_def Let_def)
  from t sample_menu_quantities d r show ?thesis by blast
qed

text \<open>
  Claim C4. With an empty cart, \<^verbatim>\<open>handleConfirmOrder\<close> changes nothing but the text
  and colour of the order message, which becomes the warning
  \<^verbatim>\<open>Add items to cart first.\<close>: no request is sent, and the cart and
  \<^verbatim>\<open>localStorage\<close> are as before.
\<close>

theorem empty_cart_checkout_rejected:
  assumes "cart st = []"
  shows "handleConfirmOrder env st
           = st\<lparr>orderMessage := (''Add items to cart first.'', ''var(--color-warning)'')\<rparr>
       \<and> requests (handleConfirmOrder env st) = requests st
       \<and> cart (handleConfirmOrder env st) = cart st
       \<and> storage (handleConfirmOrder env st) = storage st"
  using assms by (simp add: handleConfirmOrder_def)

theorem empty_cart_checkout_rejected_witness:
  "cart empty_menu = []
   \<and> requests (handleConfirmOrder failing_checkout empty_menu) = []
   \<and> orderMessage (handleConfirmOrder failing_checkout empty_menu)
       = (''Add items to cart first.'', ''var(--color-warning)'')"
proof -
  have h: "cart empty_menu = []" by (simp add: empty_menu_def)
  have r: "requests empty_menu = []" by (simp add: empty_menu_def sample_menu_def)
  from empty_cart_checkout_rejected[OF h, of failing_checkout] h r
  show ?thesis by simp
qed

text \<open>
  Claim C8. With a non-empty cart and a user in the session, \<^verbatim>\<open>handleConfirmOrder\<close>
  sends one request, a POST to the orders collection. The \<^verbatim>\<open>total\<close> of its body is
  the sum of price times quantity over the cart lines, taken line by line in cart order
  from \<open>0\<close> in the arithmetic of the program's numbers; it is computed from the cart
  alone and is the total \<^verbatim>\<open>calculateCartTotals\<close> gives for the cart. The
  \<^verbatim>\<open>items\<close> are the cart lines in order, each with the product's id, name and price
  and the line's quantity.
\<close>

theorem checkout_order_total_and_items:
  assumes "cart st \<noteq> []" and "truthy (getCurrentUser (storage st))"
  shows "\<exists>b. requests (handleConfirmOrder env st)
               = requests st @ [\<lparr>http_method = ''POST'', url = API_URLS_ORDERS, payload = Some b\<rparr>]
            \<and> od_total b = line_totals_sum 0 (cart st)
            \<and> od_total b = snd (calculateCartTotals (cart st))
            \<and> map (\<lambda>oi. (oi_productId oi, oi_name oi, oi_price oi, oi_quantity oi)) (od_items b)
               = map (\<lambda>item. (prod_id (product item), name (product item),
                               price (product item), quantity item)) (cart st)"
proof -
  let ?b = "order_data.extend (orderData (getCurrentUser (storage st)) (cart st))
              (order_body.fields (now env))"
  have req: "requests (handleConfirmOrder env st)
      = requests st @ [\<lparr>http_method = ''POST'', url = API_URLS_ORDERS, payload = Some ?b\<rparr>]"
    using assms
    by (simp add: handleConfirmOrder_def Let_def createOrder_request_def updateSidebarUI_def
        saveCartToStorage_def split: sum.splits prod.splits)
  have tot: "od_total ?b = line_totals_sum 0 (cart st)"
    by (simp add: orderData_def order_data.defs order_body.defs foldl_line_totals)
  have shown: "od_total ?b = snd (calculateCartTotals (cart st))"
    by (simp add: orderData_def order_data.defs order_body.defs calculateCartTotals_def)
  have its: "map (\<lambda>oi. (oi_productId oi, oi_name oi, oi_price oi, oi_quantity oi)) (od_items ?b)
               = map (\<lambda>item. (prod_id (product item), name (product item),
                               price (product item), quantity item)) (cart st)"
    by (simp add: orderData_def order_data.defs order_body.defs order_items_def comp_def)
  from req tot shown its show ?thesis by blast
qed

theorem checkout_order_total_and_items_witness:
  "cart sample_menu \<noteq> [] \<and> truthy (getCurrentUser (storage sample_menu))
   \<and> (\<exists>b. requests (handleConfirmOrder failing_checkout sample_menu)
             = [\<lparr>http_method = ''POST'', url = API_URLS_ORDERS, payload = Some b\<rparr>]
          \<and> od_total b = 31 / 2
          \<and> map oi_quantity (od_items b) = [1, 2])"
proof -
  have h: "cart sample_menu \<noteq> []" by (simp add: sample_menu_def)
  from checkout_order_total_and_items[OF h sample_menu_user, of failing_checkout]
  obtain b where
    r: "requests (handleConfirmOrder failing_checkout sample_menu)
          = requests sample_menu
            @ [\<lparr>http_method = ''POST'', url = API_URLS_ORDERS, payload = Some b\<rparr>]"
    and t: "od_total b = line_totals_sum 0 (cart sample_menu)"
    and i: "map (\<lambda>oi. (oi_productId oi, oi_name oi, oi_price oi, oi_quantity oi)) (od_items b)
          = map (\<lambda>item. (prod_id (product item), name (product item),
                          price (product item), quantity item)) (cart sample_menu)"
    by blast
  from r have r': "requests (handleConfirmOrder failing_checkout sample_menu)
          = [\<lparr>http_method = ''POST'', url = API_URLS_ORDERS, payload = Some b\<rparr>]"
    by (simp add: sample_menu_def)
  from t have t': "od_total b = 31 / 2"
    by (simp add: sample_menu_def burger_def cola_def js_number_def eval_nat_numeral)
  have "map oi_quantity (od_items b)
          = map (\<lambda>q. snd (snd (snd q)))
              (map (\<lambda>oi. (oi_productId oi, oi_name oi, oi_price oi, oi_quantity oi)) (od_items b))"
    by (simp add: comp_def)
  also have "\<dots> = [1, 2]" unfolding i by (simp add: sample_menu_def)
  finally have i': "map oi_quantity (od_items b) = [1, 2]" .
  from r' t' i' have "\<exists>b. requests (handleConfirmOrder failing_checkout sample_menu)
             = [\<lparr>http_method = ''POST'', url = API_URLS_ORDERS, payload = Some b\<rparr>]
          \<and> od_total b = 31 / 2
          \<and> map oi_quantity (od_items b) = [1, 2]"
    by (intro exI[of _ b] conjI)
  with h sample_menu_user show ?thesis by (intro conjI)
qed

text \<open>
  Claim C10. If \<^verbatim>\<open>createOrder\<close> throws, the cart and \<^verbatim>\<open>localStorage\<close> after
  \<^verbatim>\<open>handleConfirmOrder\<close> are those before it. If the cart after it differs from the
  cart before, then \<^verbatim>\<open>createOrder\<close> returned, the cart is empty and the empty cart
  is what \<^verbatim>\<open>localStorage\<close> holds.
\<close>

theorem checkout_keeps_cart_on_failure:
  "(isl (createOrder (order_response env)) \<longrightarrow>
      cart (handleConfirmOrder env st) = cart st
      \<and> storage (handleConfirmOrder env st) = storage st)
   \<and> (cart (handleConfirmOrder env st) \<noteq> cart st \<longrightarrow>
      \<not> isl (createOrder (order_response env))
      \<and> cart (handleConfirmOrder env st) = []
      \<and> shoppingCart (storage (handleConfirmOrder env st)) = Some (JsonText []))"
  by (auto simp: handleConfirmOrder_def Let_def updateSidebarUI_def saveCartToStorage_def
      split: sum.splits prod.splits)

theorem checkout_keeps_cart_on_failure_witness:
  "isl (createOrder (order_response failing_checkout) :: js_error + json)
   \<and> cart (handleConfirmOrder failing_checkout sample_menu) = cart sample_menu
   \<and> storage (handleConfirmOrder failing_checkout sample_menu) = storage sample_menu
   \<and> orderMessage (handleConfirmOrder failing_checkout sample_menu)
       = (''Error placing order.'', ''var(--color-error)'')"
proof -
  have h: "isl (createOrder (order_response failing_checkout) :: js_error + json)"
    by (simp add: failing_checkout_def network_down_def createOrder_def fetch_json_def
        catch_rethrow_def)
  have m: "orderMessage (handleConfirmOrder failing_checkout sample_menu)
       = (''Error placing order.'', ''var(--color-error)'')"
    using sample_menu_user
    by (simp add: handleConfirmOrder_def Let_def sample_menu_def failing_checkout_def
        network_down_def createOrder_def fetch_json_def catch_rethrow_def)
  from checkout_keeps_cart_on_failure[of failing_checkout sample_menu] h m
  show ?thesis by blast
qed

section \<open>Controls of the administrator\<close>













section \<open>The router\<close>



end
